theory Spec2Isabelle
  imports Main "HOL-Library.Word"
begin

section \<open>The UDL authenticator: data model\<close>

text \<open>
  The class \<open>UDLAuthenticator\<close> keeps a table of sessions and a pointer to the current
  session in memory, and one credential record in a file. Strings are \<open>string\<close>,
  buffers are lists of bytes, ISO timestamps are the millisecond count they encode
  (\<open>new Date(d.toISOString())\<close> gives back the same millisecond), and every
  \<open>throw\<close> is a value of \<open>error\<close>.
\<close>

type_synonym byte = "8 word"

text \<open>The classification is a string: the record is read back with \<open>JSON.parse\<close>, and
  \<open>getPermissionsForClassification\<close> takes a \<open>string\<close> and has a \<open>default\<close> branch.\<close>

record StoredCredentials =
  username :: string
  passwordHash :: string
  salt :: string
  classification :: string
  apiEndpoint :: "string option"
  createdAt :: int
  lastUsed :: "int option"

record UDLCredentials =
  cred_username :: string
  cred_password :: string
  cred_classification :: string
  cred_apiEndpoint :: "string option"

record AuthSession =
  sessionId :: string
  session_username :: string
  session_classification :: string
  accessToken :: "string option"
  refreshToken :: "string option"
  expiresAt :: int
  permissions :: "string list"

record AuthenticationStatus =
  isAuthenticated :: bool
  status_username :: "string option"
  status_classification :: "string option"
  status_sessionId :: "string option"
  status_expiresAt :: "int option"
  status_permissions :: "string list option"
  lastActivity :: "int option"

text \<open>One constructor for each \<open>throw\<close> of the class, and for the two rejections that
  come from the platform (a failed \<open>fs.writeFile\<close> that is not caught, and the
  \<open>RangeError\<close> of \<open>timingSafeEqual\<close> on buffers of different lengths).\<close>

datatype error =
    CredentialsDirFailed
  | StoreFailed
  | LoadFailed
  | NoCredentialsConfigured
  | InvalidUsername
  | InvalidPassword
  | IdentityProviderError
  | SessionNotFound
  | SessionExpired
  | NotAuthenticated
  | ClearFailed
  | WriteFileRejected
  | RangeError

text \<open>What \<open>credentials.json\<close> holds: nothing (the file does not exist), the record
  that \<open>JSON.stringify\<close> wrote and \<open>JSON.parse\<close> reads back, or text that does not
  parse (an empty or partly written file).\<close>

datatype credentials_file = NoFile | FileWith StoredCredentials | Unparsable

text \<open>The state of the object and of what it writes: the two private fields, the
  credential file and the lines printed by \<open>console.log\<close>.\<close>

record udl_state =
  sessions :: "string \<rightharpoonup> AuthSession"
  currentSession :: "AuthSession option"
  credentialsFile :: credentials_file
  console :: "string list"

text \<open>Where a failing \<open>fs.writeFile\<close> fails: at the open, which leaves the file as it
  was; while writing, after the open with flag \<open>w\<close> has truncated the file; or at the
  close, after the whole text has been written.\<close>

datatype write_stage = AtOpen | WhileWriting | AtClose

text \<open>What a call takes from outside the object: the key-derivation function
  \<open>scrypt\<close> (password, salt, key length), the random bytes and tokens drawn during the
  call, the first and the second reading of the clock in the call (milliseconds), which
  of the file-system and identity-provider steps fail (and, for a failing write, where),
  and the platform's \<open>String.prototype.toUpperCase\<close>.\<close>

record env =
  scrypt :: "string \<Rightarrow> byte list \<Rightarrow> nat \<Rightarrow> byte list"
  randomBytes32 :: "byte list"
  apiToken1 :: string
  apiToken2 :: string
  clock1 :: int
  clock2 :: int
  mkdirFails :: bool
  readFails :: bool
  writeFails :: bool
  writeFailsAt :: write_stage
  unlinkFails :: bool
  udlFails :: bool
  toUpperCase :: "string \<Rightarrow> string"

section \<open>Hexadecimal buffers\<close>

text \<open>\<open>buf.toString('hex')\<close>: two lower-case digits for each byte.\<close>

definition hexDigit :: "nat \<Rightarrow> char" where
  "hexDigit n = char_of (if n < 10 then 48 + n else 87 + n)"

definition toString_hex :: "byte list \<Rightarrow> string" where
  "toString_hex bs = concat (map (\<lambda>b. [hexDigit (unat b div 16), hexDigit (unat b mod 16)]) bs)"

text \<open>\<open>Buffer.from(s, 'hex')\<close>: decodes pairs of digits of either case and stops, without
  throwing, at the first pair that is not two hexadecimal digits; a last single character
  is dropped.\<close>

definition unhex :: "char \<Rightarrow> nat option" where
  "unhex c = (let n = (of_char c :: nat) in
     if 48 \<le> n \<and> n \<le> 57 then Some (n - 48)
     else if 97 \<le> n \<and> n \<le> 102 then Some (n - 87)
     else if 65 \<le> n \<and> n \<le> 70 then Some (n - 55)
     else None)"

fun Buffer_from_hex :: "string \<Rightarrow> byte list" where
  "Buffer_from_hex (a # b # rest) =
     (case unhex a of
        None \<Rightarrow> []
      | Some x \<Rightarrow> (case unhex b of
          None \<Rightarrow> []
        | Some y \<Rightarrow> of_nat (16 * x + y) # Buffer_from_hex rest))"
| "Buffer_from_hex _ = []"

text \<open>\<open>timingSafeEqual(a, b)\<close> throws a \<open>RangeError\<close> when the byte lengths differ and
  compares the contents otherwise.\<close>

definition timingSafeEqual :: "byte list \<Rightarrow> byte list \<Rightarrow> error + bool" where
  "timingSafeEqual a b = (if length a \<noteq> length b then Inl RangeError else Inr (a = b))"

section \<open>Password hasher\<close>

definition hashPassword :: "env \<Rightarrow> string \<Rightarrow> byte list option \<Rightarrow> string \<times> string" where
  "hashPassword e password salt_opt =
     (let passwordSalt = (case salt_opt of Some s \<Rightarrow> s | None \<Rightarrow> randomBytes32 e);
          hash = scrypt e password passwordSalt 64
      in (toString_hex hash, toString_hex passwordSalt))"

definition verifyPassword :: "env \<Rightarrow> string \<Rightarrow> string \<Rightarrow> string \<Rightarrow> error + bool" where
  "verifyPassword e password hash salt' =
     (let saltBuffer = Buffer_from_hex salt';
          hashBuffer = Buffer_from_hex hash;
          inputHash = scrypt e password saltBuffer 64
      in timingSafeEqual hashBuffer inputHash)"

definition generateSessionId :: "env \<Rightarrow> string" where
  "generateSessionId e = toString_hex (randomBytes32 e)"

section \<open>Permission catalog\<close>

definition basePermissions :: "string list" where
  "basePermissions = [''catalog:read'', ''objects:search'', ''objects:get'', ''tle:read'']"

definition getPermissionsForClassification :: "string \<Rightarrow> string list" where
  "getPermissionsForClassification c =
     (if c = ''unclassified'' then basePermissions @ [''predictions:read'']
      else if c = ''cui'' then
        basePermissions @ [''predictions:read'', ''conjunctions:read'', ''sensors:read'',
          ''analysis:read'']
      else if c = ''secret'' then
        basePermissions @ [''predictions:read'', ''conjunctions:read'', ''sensors:read'',
          ''analysis:read'', ''classifications:all'', ''spacefence:read'',
          ''intelligence:read'']
      else basePermissions)"

section \<open>Credential store\<close>

text \<open>What a rejected \<open>fs.writeFile\<close> leaves in the file, given what it held and the
  record being written.\<close>

definition failedWrite :: "env \<Rightarrow> credentials_file \<Rightarrow> StoredCredentials \<Rightarrow> credentials_file" where
  "failedWrite e old new =
     (case writeFailsAt e of
        AtOpen \<Rightarrow> old
      | WhileWriting \<Rightarrow> Unparsable
      | AtClose \<Rightarrow> FileWith new)"

definition defaultEndpoint :: string where
  "defaultEndpoint = ''https://unifieddatalibrary.com/api''"

text \<open>JavaScript's \<open>a || b\<close> on an optional string: \<open>undefined\<close> and the empty string
  are falsy.\<close>

definition truthy :: "string option \<Rightarrow> bool" where
  "truthy s = (case s of None \<Rightarrow> False | Some v \<Rightarrow> v \<noteq> [])"

definition ensureCredentialsDir :: "env \<Rightarrow> error + unit" where
  "ensureCredentialsDir e = (if mkdirFails e then Inl CredentialsDirFailed else Inr ())"

definition storeCredentials :: "env \<Rightarrow> UDLCredentials \<Rightarrow> udl_state \<Rightarrow> (error + unit) \<times> udl_state" where
  "storeCredentials e credentials st =
     (case ensureCredentialsDir e of
        Inl err \<Rightarrow> (Inl err, st)
      | Inr _ \<Rightarrow>
          (let (hash, salt') = hashPassword e (cred_password credentials) None;
               stored = \<lparr> username = cred_username credentials,
                          passwordHash = hash,
                          salt = salt',
                          classification = cred_classification credentials,
                          apiEndpoint = Some (case cred_apiEndpoint credentials of
                                                None \<Rightarrow> defaultEndpoint
                                              | Some a \<Rightarrow> if a = [] then defaultEndpoint else a),
                          createdAt = clock1 e,
                          lastUsed = None \<rparr>
           in if writeFails e
              then (Inl StoreFailed,
                    st\<lparr>credentialsFile := failedWrite e (credentialsFile st) stored\<rparr>)
              else (Inr (), st\<lparr>credentialsFile := FileWith stored\<rparr>)))"

text \<open>\<open>ENOENT\<close> gives \<open>null\<close>; any other failure of \<open>readFile\<close>, and the
  \<open>SyntaxError\<close> of \<open>JSON.parse\<close> on text that does not parse, is rethrown as
  \<open>Failed to load credentials\<close>.\<close>

definition loadCredentials :: "env \<Rightarrow> udl_state \<Rightarrow> error + StoredCredentials option" where
  "loadCredentials e st =
     (if readFails e then Inl LoadFailed
      else (case credentialsFile st of
          NoFile \<Rightarrow> Inr None
        | FileWith stored \<Rightarrow> Inr (Some stored)
        | Unparsable \<Rightarrow> Inl LoadFailed))"

definition clearStoredCredentials :: "env \<Rightarrow> udl_state \<Rightarrow> (error + unit) \<times> udl_state" where
  "clearStoredCredentials e st =
     (if unlinkFails e then (Inl ClearFailed, st)
      else (Inr (), st\<lparr>credentialsFile := NoFile\<rparr>))"

section \<open>Authentication and sessions\<close>

definition eightHours :: int where
  "eightHours = 8 * 60 * 60 * 1000"

text \<open>The simulated identity-provider call: its \<open>catch\<close> rethrows whatever the body
  throws as \<open>UDL API authentication failed\<close>.\<close>

definition authenticateWithUDL ::
  "env \<Rightarrow> string \<Rightarrow> string \<Rightarrow> StoredCredentials \<Rightarrow> error + (string \<times> string \<times> string list)" where
  "authenticateWithUDL e username' password stored =
     (if udlFails e then Inl IdentityProviderError
      else Inr (apiToken1 e, apiToken2 e,
                getPermissionsForClassification (classification stored)))"

definition authenticateUser ::
  "env \<Rightarrow> string \<Rightarrow> string \<Rightarrow> udl_state \<Rightarrow> (error + AuthSession) \<times> udl_state" where
  "authenticateUser e username' password st =
     (case loadCredentials e st of
        Inl err \<Rightarrow> (Inl err, st)
      | Inr None \<Rightarrow> (Inl NoCredentialsConfigured, st)
      | Inr (Some stored) \<Rightarrow>
          if username stored \<noteq> username' then (Inl InvalidUsername, st)
          else (case verifyPassword e password (passwordHash stored) (salt stored) of
              Inl err \<Rightarrow> (Inl err, st)
            | Inr isValidPassword \<Rightarrow>
                if \<not> isValidPassword then (Inl InvalidPassword, st)
                else (case authenticateWithUDL e username' password stored of
                    Inl err \<Rightarrow> (Inl err, st)
                  | Inr (access, refresh, perms) \<Rightarrow>
                      (let sid = generateSessionId e;
                           session = \<lparr> sessionId = sid,
                                       session_username = username',
                                       session_classification = classification stored,
                                       accessToken = Some access,
                                       refreshToken = Some refresh,
                                       expiresAt = clock1 e + eightHours,
                                       permissions = perms \<rparr>;
                           st1 = st\<lparr>sessions := (sessions st)(sid \<mapsto> session),
                                    currentSession := Some session\<rparr>;
                           stored' = stored\<lparr>lastUsed := Some (clock2 e)\<rparr>
                       in if writeFails e
                          then (Inl WriteFileRejected,
                                st1\<lparr>credentialsFile :=
                                      failedWrite e (credentialsFile st) stored'\<rparr>)
                          else (Inr session, st1\<lparr>credentialsFile := FileWith stored'\<rparr>)))))"

definition refreshSession ::
  "env \<Rightarrow> string \<Rightarrow> udl_state \<Rightarrow> (error + AuthSession) \<times> udl_state" where
  "refreshSession e sid st =
     (case sessions st sid of
        None \<Rightarrow> (Inl SessionNotFound, st)
      | Some session \<Rightarrow>
          if clock1 e > expiresAt session
          then (Inl SessionExpired, st\<lparr>sessions := (sessions st)(sid := None)\<rparr>)
          else (let refreshedSession = session\<lparr>accessToken := Some (apiToken1 e),
                                                 expiresAt := clock2 e + eightHours\<rparr>;
                    st1 = st\<lparr>sessions := (sessions st)(sid \<mapsto> refreshedSession)\<rparr>;
                    st2 = (if map_option sessionId (currentSession st1) = Some sid
                           then st1\<lparr>currentSession := Some refreshedSession\<rparr> else st1)
                in (Inr refreshedSession, st2)))"

definition revokeTokensWithUDL :: "AuthSession \<Rightarrow> udl_state \<Rightarrow> udl_state" where
  "revokeTokensWithUDL session st =
     st\<lparr>console := console st @ [''Revoking tokens for session '' @ sessionId session]\<rparr>"

definition logout :: "string option \<Rightarrow> udl_state \<Rightarrow> udl_state" where
  "logout sid_opt st =
     (let targetSessionId =
            (if truthy sid_opt then sid_opt else map_option sessionId (currentSession st));
          st1 = (case targetSessionId of
                   None \<Rightarrow> st
                 | Some t \<Rightarrow>
                     if t = [] then st
                     else (case sessions st t of
                         None \<Rightarrow> st
                       | Some session \<Rightarrow>
                           (let st' = revokeTokensWithUDL session st
                            in st'\<lparr>sessions := (sessions st')(t := None)\<rparr>)))
      in if \<not> truthy sid_opt \<or> map_option sessionId (currentSession st1) = sid_opt
         then st1\<lparr>currentSession := None\<rparr> else st1)"

definition getCurrentSession :: "env \<Rightarrow> udl_state \<Rightarrow> AuthSession option \<times> udl_state" where
  "getCurrentSession e st =
     (case currentSession st of
        None \<Rightarrow> (None, st)
      | Some cur \<Rightarrow>
          if clock1 e > expiresAt cur then (None, logout (Some (sessionId cur)) st)
          else (Some cur, st))"

definition unauthenticated :: AuthenticationStatus where
  "unauthenticated = \<lparr> isAuthenticated = False, status_username = None,
     status_classification = None, status_sessionId = None, status_expiresAt = None,
     status_permissions = None, lastActivity = None \<rparr>"

definition getAuthenticationStatus :: "env \<Rightarrow> udl_state \<Rightarrow> AuthenticationStatus \<times> udl_state" where
  "getAuthenticationStatus e st =
     (case getCurrentSession e st of
        (None, st') \<Rightarrow> (unauthenticated, st')
      | (Some session, st') \<Rightarrow>
          (\<lparr> isAuthenticated = True,
             status_username = Some (session_username session),
             status_classification = Some (session_classification session),
             status_sessionId = Some (sessionId session),
             status_expiresAt = Some (expiresAt session),
             status_permissions = Some (permissions session),
             lastActivity = Some (clock2 e) \<rparr>, st'))"

text \<open>\<open>permission.split(':')[0]\<close> is the text before the first colon, and the whole string
  when it has none.\<close>

definition split_colon_0 :: "string \<Rightarrow> string" where
  "split_colon_0 permission = takeWhile (\<lambda>c. c \<noteq> CHR '':'') permission"

definition validatePermission :: "env \<Rightarrow> string \<Rightarrow> udl_state \<Rightarrow> bool \<times> udl_state" where
  "validatePermission e permission st =
     (case getCurrentSession e st of
        (None, st') \<Rightarrow> (False, st')
      | (Some session, st') \<Rightarrow>
          (permission \<in> set (permissions session) \<or>
           ''*'' \<in> set (permissions session) \<or>
           (split_colon_0 permission @ '':*'') \<in> set (permissions session), st'))"

definition getApiHeaders ::
  "env \<Rightarrow> udl_state \<Rightarrow> (error + (string \<times> string) list) \<times> udl_state" where
  "getApiHeaders e st =
     (case getCurrentSession e st of
        (None, st') \<Rightarrow> (Inl NotAuthenticated, st')
      | (Some session, st') \<Rightarrow>
          (case accessToken session of
             None \<Rightarrow> (Inl NotAuthenticated, st')
           | Some token \<Rightarrow>
               if token = [] then (Inl NotAuthenticated, st')
               else (Inr [(''Authorization'', ''Bearer '' @ token),
                          (''X-Classification'', toUpperCase e (session_classification session)),
                          (''X-Session-ID'', sessionId session),
                          (''Content-Type'', ''application/json''),
                          (''User-Agent'', ''UDL-MCP-Server/1.0.0'')], st')))"

section \<open>Predicates and example values used in the statements\<close>

text \<open>A stored hash or salt is well formed when it is the hexadecimal encoding of \<open>n\<close>
  bytes: \<open>2 * n\<close> characters, all of them hexadecimal digits.\<close>

definition valid_hex :: "nat \<Rightarrow> string \<Rightarrow> bool" where
  "valid_hex n s = (length s = 2 * n \<and> list_all (\<lambda>c. unhex c \<noteq> None) s)"

text \<open>The current-session pointer refers to an entry of the table: the entry under the
  pointer's \<open>sessionId\<close> is the session the pointer holds.\<close>

definition current_in_table :: "udl_state \<Rightarrow> bool" where
  "current_in_table st =
     (case currentSession st of
        None \<Rightarrow> True
      | Some cur \<Rightarrow> sessions st (sessionId cur) = Some cur)"

text \<open>A stand-in for \<open>scrypt\<close> with the right output length, and an environment, a fresh
  object and the states of the scenario \<open>alice / secretpw / unclassified\<close>, for the
  concrete instances below.\<close>

definition demo_scrypt :: "string \<Rightarrow> byte list \<Rightarrow> nat \<Rightarrow> byte list" where
  "demo_scrypt password salt' keylen =
     take keylen (map of_char password @ salt' @ replicate keylen 0)"

text \<open>Upper-casing of the ASCII letters, for the example environment.\<close>

definition ascii_toUpperCase :: "string \<Rightarrow> string" where
  "ascii_toUpperCase s =
     map (\<lambda>c. if 97 \<le> (of_char c :: nat) \<and> (of_char c :: nat) \<le> 122
              then char_of ((of_char c :: nat) - 32) else c) s"

definition demo_env :: env where
  "demo_env = \<lparr> scrypt = demo_scrypt, randomBytes32 = replicate 32 7,
     apiToken1 = ''access-token'', apiToken2 = ''refresh-token'',
     clock1 = 1000, clock2 = 1001,
     mkdirFails = False, readFails = False, writeFails = False, writeFailsAt = WhileWriting,
     unlinkFails = False, udlFails = False, toUpperCase = ascii_toUpperCase \<rparr>"

definition demo_credentials :: UDLCredentials where
  "demo_credentials = \<lparr> cred_username = ''alice'', cred_password = ''secretpw'',
     cred_classification = ''unclassified'', cred_apiEndpoint = None \<rparr>"

definition demo_init :: udl_state where
  "demo_init = \<lparr> sessions = Map.empty, currentSession = None, credentialsFile = NoFile,
     console = [] \<rparr>"

definition demo_stored :: StoredCredentials where
  "demo_stored = \<lparr> username = ''alice'',
     passwordHash = fst (hashPassword demo_env ''secretpw'' None),
     salt = snd (hashPassword demo_env ''secretpw'' None),
     classification = ''unclassified'',
     apiEndpoint = Some defaultEndpoint,
     createdAt = 1000, lastUsed = None \<rparr>"

definition demo_configured :: udl_state where
  "demo_configured = snd (storeCredentials demo_env demo_credentials demo_init)"

definition demo_loggedin :: udl_state where
  "demo_loggedin = snd (authenticateUser demo_env ''alice'' ''secretpw'' demo_configured)"

definition demo_session :: AuthSession where
  "demo_session = \<lparr> sessionId = generateSessionId demo_env,
     session_username = ''alice'', session_classification = ''unclassified'',
     accessToken = Some ''access-token'', refreshToken = Some ''refresh-token'',
     expiresAt = 1000 + eightHours,
     permissions = getPermissionsForClassification ''unclassified'' \<rparr>"

section \<open>Auxiliary facts\<close>

subsection \<open>Hexadecimal encoding is inverted by decoding\<close>

lemma unhex_hexDigit: "n < 16 \<Longrightarrow> unhex (hexDigit n) = Some n"
  by (auto simp: unhex_def hexDigit_def Let_def)

lemma unat_div16_lt: "unat (b :: byte) div 16 < 16"
proof -
  have "unat b < 256" using unsigned_less [of b] by simp
  then show ?thesis by simp
qed

lemma Buffer_from_hex_toString_hex: "Buffer_from_hex (toString_hex bs) = bs"
  by (induction bs) (simp_all add: toString_hex_def unhex_hexDigit unat_div16_lt)

lemma length_toString_hex: "length (toString_hex bs) = 2 * length bs"
  by (induction bs) (simp_all add: toString_hex_def)

lemma length_Buffer_from_hex: "valid_hex n s \<Longrightarrow> length (Buffer_from_hex s) = n"
proof (induction s arbitrary: n rule: Buffer_from_hex.induct)
  case (1 a b rest)
  then obtain m where n: "n = Suc m" by (cases n) (auto simp: valid_hex_def)
  from 1 n have "valid_hex m rest"
    by (simp add: valid_hex_def)
  moreover from 1 obtain x y where "unhex a = Some x" "unhex b = Some y"
    by (auto simp: valid_hex_def)
  ultimately show ?case using 1 n by simp
qed (auto simp: valid_hex_def)

subsection \<open>Hashing, then verifying\<close>

lemma verifyPassword_hashPassword:
  assumes len: "length (scrypt e Q sb 64) = length (scrypt e P sb 64)"
    and same: "scrypt e' = scrypt e"
    and sb: "sb = (case so of Some s \<Rightarrow> s | None \<Rightarrow> randomBytes32 e)"
  shows "verifyPassword e' P (fst (hashPassword e Q so)) (snd (hashPassword e Q so))
         = Inr (scrypt e Q sb 64 = scrypt e P sb 64)"
  using len
  by (simp add: verifyPassword_def hashPassword_def Let_def Buffer_from_hex_toString_hex
      timingSafeEqual_def same sb)

subsection \<open>Authentication with verified credentials\<close>

lemma authenticateUser_verified:
  assumes "\<not> readFails e" and "credentialsFile st = FileWith c" and "username c = u"
    and "verifyPassword e p (passwordHash c) (salt c) = Inr True" and "\<not> udlFails e"
    and "s = \<lparr> sessionId = generateSessionId e, session_username = u,
                session_classification = classification c,
                accessToken = Some (apiToken1 e), refreshToken = Some (apiToken2 e),
                expiresAt = clock1 e + eightHours,
                permissions = getPermissionsForClassification (classification c) \<rparr>"
  shows "authenticateUser e u p st =
     (if writeFails e
      then (Inl WriteFileRejected,
            st\<lparr>sessions := (sessions st)(generateSessionId e \<mapsto> s), currentSession := Some s,
               credentialsFile :=
                 failedWrite e (credentialsFile st) (c\<lparr>lastUsed := Some (clock2 e)\<rparr>)\<rparr>)
      else (Inr s,
            st\<lparr>sessions := (sessions st)(generateSessionId e \<mapsto> s), currentSession := Some s,
               credentialsFile := FileWith (c\<lparr>lastUsed := Some (clock2 e)\<rparr>)\<rparr>))"
  using assms
  by (simp add: authenticateUser_def loadCredentials_def authenticateWithUDL_def Let_def)

lemma authenticateUser_state_cases:
  "snd (authenticateUser e u p st) = st
   \<or> (\<exists>s f. snd (authenticateUser e u p st) =
          st\<lparr>sessions := (sessions st)(sessionId s \<mapsto> s), currentSession := Some s,
             credentialsFile := f\<rparr>)"
proof (cases "loadCredentials e st")
  case (Inl err)
  then show ?thesis by (simp add: authenticateUser_def)
next
  case (Inr r)
  show ?thesis
  proof (cases r)
    case None
    with Inr show ?thesis by (simp add: authenticateUser_def)
  next
    case (Some c)
    show ?thesis
    proof (cases "username c = u \<and> verifyPassword e p (passwordHash c) (salt c) = Inr True
        \<and> \<not> udlFails e")
      case True
      define s where "s = \<lparr> sessionId = generateSessionId e, session_username = u,
                session_classification = classification c,
                accessToken = Some (apiToken1 e), refreshToken = Some (apiToken2 e),
                expiresAt = clock1 e + eightHours,
                permissions = getPermissionsForClassification (classification c) \<rparr>"
      have id: "generateSessionId e = sessionId s" by (simp add: s_def)
      from Inr Some have r: "\<not> readFails e" and cf: "credentialsFile st = FileWith c"
        by (auto simp: loadCredentials_def split: if_splits credentials_file.splits)
      from True have t: "username c = u" "verifyPassword e p (passwordHash c) (salt c) = Inr True"
        "\<not> udlFails e" by simp_all
      show ?thesis
        unfolding authenticateUser_verified [OF r cf t s_def] id
        by (cases "writeFails e") auto
    next
      case False
      with Inr Some have "snd (authenticateUser e u p st) = st"
        by (auto simp: authenticateUser_def authenticateWithUDL_def split: sum.splits)
      then show ?thesis by simp
    qed
  qed
qed

subsection \<open>Expiry and logout\<close>

lemma getCurrentSession_cases:
  "getCurrentSession e st =
     (case currentSession st of
        None \<Rightarrow> (None, st)
      | Some s \<Rightarrow> if clock1 e > expiresAt s then (None, logout (Some (sessionId s)) st)
                  else (Some s, st))"
  by (simp add: getCurrentSession_def)

lemma logout_expired_current:
  assumes "currentSession st = Some s"
  shows "currentSession (logout (Some (sessionId s)) st) = None"
    and "sessionId s \<noteq> [] \<Longrightarrow> sessions (logout (Some (sessionId s)) st) (sessionId s) = None"
    and "sessionId s \<noteq> [] \<Longrightarrow> sessions st (sessionId s) = Some s \<Longrightarrow>
           logout (Some (sessionId s)) st =
             st\<lparr>console := console st @ [''Revoking tokens for session '' @ sessionId s],
                sessions := (sessions st)(sessionId s := None),
                currentSession := None\<rparr>"
  using assms
  by (auto simp: logout_def truthy_def revokeTokensWithUDL_def Let_def split: option.splits)

lemma refreshSession_after_purge:
  assumes "currentSession st = Some s" and "clock1 e > expiresAt s" and "sessionId s \<noteq> []"
  shows "refreshSession e' (sessionId s) (snd (getCurrentSession e st)) =
           (Inl SessionNotFound, snd (getCurrentSession e st))"
proof -
  from assms(1,2) have "getCurrentSession e st = (None, logout (Some (sessionId s)) st)"
    by (simp add: getCurrentSession_cases)
  moreover have "sessions (logout (Some (sessionId s)) st) (sessionId s) = None"
    by (rule logout_expired_current(2) [OF assms(1) assms(3)])
  ultimately show ?thesis by (simp add: refreshSession_def)
qed

lemma logout_credentialsFile:
  "logout sid (st\<lparr>credentialsFile := x\<rparr>) = (logout sid st)\<lparr>credentialsFile := x\<rparr>"
  by (auto simp: logout_def Let_def revokeTokensWithUDL_def truthy_def split: option.splits)

lemma getCurrentSession_credentialsFile:
  "getCurrentSession e (st\<lparr>credentialsFile := x\<rparr>) =
     (fst (getCurrentSession e st), (snd (getCurrentSession e st))\<lparr>credentialsFile := x\<rparr>)"
  by (simp add: getCurrentSession_cases logout_credentialsFile split: option.splits)

lemma clearStoredCredentials_cases:
  "snd (clearStoredCredentials e st) = st \<or>
   snd (clearStoredCredentials e st) = st\<lparr>credentialsFile := NoFile\<rparr>"
  by (simp add: clearStoredCredentials_def)

lemma reads_ignore_credentialsFile:
  "fst (getAuthenticationStatus e (st\<lparr>credentialsFile := x\<rparr>)) = fst (getAuthenticationStatus e st)"
  "fst (validatePermission e p (st\<lparr>credentialsFile := x\<rparr>)) = fst (validatePermission e p st)"
  "fst (getApiHeaders e (st\<lparr>credentialsFile := x\<rparr>)) = fst (getApiHeaders e st)"
  by (simp_all add: getAuthenticationStatus_def validatePermission_def getApiHeaders_def
      getCurrentSession_credentialsFile split: prod.splits option.splits)

subsection \<open>The current session stays in the table\<close>

lemma authenticateUser_current_in_table:
  assumes inv: "current_in_table st"
  shows "current_in_table (snd (authenticateUser e u p st))"
  using authenticateUser_state_cases [of e u p st]
proof (elim disjE exE)
  assume "snd (authenticateUser e u p st) = st"
  with inv show ?thesis by simp
next
  fix s f assume "snd (authenticateUser e u p st) =
          st\<lparr>sessions := (sessions st)(sessionId s \<mapsto> s), currentSession := Some s,
             credentialsFile := f\<rparr>"
  then show ?thesis by (simp add: current_in_table_def)
qed

lemma logout_current_in_table:
  assumes inv: "current_in_table st"
  shows "current_in_table (logout sid st)"
proof -
  define target where "target =
      (if truthy sid then sid else map_option sessionId (currentSession st))"
  define st1 where "st1 = (case target of
                   None \<Rightarrow> st
                 | Some t \<Rightarrow>
                     if t = [] then st
                     else (case sessions st t of
                         None \<Rightarrow> st
                       | Some session \<Rightarrow>
                           (let st' = revokeTokensWithUDL session st
                            in st'\<lparr>sessions := (sessions st')(t := None)\<rparr>)))"
  have l: "logout sid st =
      (if \<not> truthy sid \<or> map_option sessionId (currentSession st1) = sid
       then st1\<lparr>currentSession := None\<rparr> else st1)"
    by (simp add: logout_def Let_def st1_def target_def)
  have cur: "currentSession st1 = currentSession st"
    by (simp add: st1_def revokeTokensWithUDL_def Let_def split: option.splits)
  show ?thesis
  proof (cases "\<not> truthy sid \<or> map_option sessionId (currentSession st1) = sid")
    case True
    then show ?thesis by (simp add: l current_in_table_def)
  next
    case False
    then have tr: "truthy sid" and ne: "map_option sessionId (currentSession st) \<noteq> sid"
      by (simp_all add: cur)
    from tr have tg: "target = sid" by (simp add: target_def)
    from tr obtain t where sid: "sid = Some t" by (cases sid) (auto simp: truthy_def)
    have keep: "sessions st1 k = sessions st k" if "k \<noteq> t" for k
      using that
      by (simp add: st1_def tg sid revokeTokensWithUDL_def Let_def split: option.splits)
    from False have "logout sid st = st1" by (simp add: l)
    moreover have "current_in_table st1"
      using inv ne keep
      by (auto simp: current_in_table_def cur sid split: option.splits)
    ultimately show ?thesis by simp
  qed
qed

lemma getCurrentSession_current_in_table:
  "current_in_table st \<Longrightarrow> current_in_table (snd (getCurrentSession e st))"
  by (simp add: getCurrentSession_cases logout_current_in_table split: option.splits)

lemma refreshSession_current_in_table:
  assumes inv: "current_in_table st"
    and ok: "fst (refreshSession e sid st) = Inl SessionExpired \<longrightarrow>
           map_option sessionId (currentSession st) \<noteq> Some sid"
  shows "current_in_table (snd (refreshSession e sid st))"
proof (cases "sessions st sid")
  case None
  then show ?thesis using inv by (simp add: refreshSession_def)
next
  case (Some s)
  show ?thesis
  proof (cases "clock1 e > expiresAt s")
    case True
    with Some have r: "refreshSession e sid st =
        (Inl SessionExpired, st\<lparr>sessions := (sessions st)(sid := None)\<rparr>)"
      by (simp add: refreshSession_def)
    with ok have "map_option sessionId (currentSession st) \<noteq> Some sid" by simp
    with inv show ?thesis
      by (auto simp: r current_in_table_def split: option.splits)
  next
    case False
    with Some inv show ?thesis
      by (auto simp: refreshSession_def current_in_table_def Let_def split: option.splits)
  qed
qed

subsection \<open>The example environment and states\<close>

lemma length_demo_scrypt: "length (demo_scrypt p s n) = n"
  by (simp add: demo_scrypt_def)

lemma demo_env_fields:
  "scrypt demo_env = demo_scrypt" "randomBytes32 demo_env = replicate 32 7"
  "apiToken1 demo_env = ''access-token''" "apiToken2 demo_env = ''refresh-token''"
  "clock1 demo_env = 1000" "clock2 demo_env = 1001"
  "mkdirFails demo_env = False" "readFails demo_env = False" "writeFails demo_env = False"
  "unlinkFails demo_env = False" "udlFails demo_env = False"
  "writeFailsAt demo_env = WhileWriting" "toUpperCase demo_env = ascii_toUpperCase"
  by (simp_all add: demo_env_def)

lemma demo_configured_eq:
  "demo_configured = demo_init\<lparr>credentialsFile := FileWith demo_stored\<rparr>"
  by (simp add: demo_configured_def storeCredentials_def ensureCredentialsDir_def
      demo_credentials_def demo_env_fields split_beta Let_def demo_stored_def)

lemma demo_verify:
  assumes "scrypt e = demo_scrypt"
  shows "verifyPassword e P (passwordHash demo_stored) (salt demo_stored)
   = Inr (demo_scrypt ''secretpw'' (replicate 32 7) 64 = demo_scrypt P (replicate 32 7) 64)"
proof -
  have "verifyPassword e P
     (fst (hashPassword demo_env ''secretpw'' None))
     (snd (hashPassword demo_env ''secretpw'' None))
   = Inr (scrypt demo_env ''secretpw'' (replicate 32 7) 64 = scrypt demo_env P (replicate 32 7) 64)"
    by (rule verifyPassword_hashPassword)
       (simp_all add: demo_env_fields length_demo_scrypt assms)
  then show ?thesis by (simp add: demo_env_fields demo_stored_def)
qed

lemma demo_authenticate:
  assumes "scrypt e = demo_scrypt" "randomBytes32 e = randomBytes32 demo_env"
    "apiToken1 e = ''access-token''" "apiToken2 e = ''refresh-token''"
    "clock1 e = 1000" "clock2 e = 1001" "\<not> readFails e" "\<not> udlFails e"
  shows "authenticateUser e ''alice'' ''secretpw'' demo_configured =
     (if writeFails e
      then (Inl WriteFileRejected,
            demo_configured\<lparr>sessions := [generateSessionId demo_env \<mapsto> demo_session],
              currentSession := Some demo_session,
              credentialsFile :=
                failedWrite e (FileWith demo_stored) (demo_stored\<lparr>lastUsed := Some 1001\<rparr>)\<rparr>)
      else (Inr demo_session,
            demo_configured\<lparr>sessions := [generateSessionId demo_env \<mapsto> demo_session],
              currentSession := Some demo_session,
              credentialsFile := FileWith (demo_stored\<lparr>lastUsed := Some 1001\<rparr>)\<rparr>))"
proof -
  have cf: "credentialsFile demo_configured = FileWith demo_stored"
    and ss: "sessions demo_configured = Map.empty"
    by (simp_all add: demo_configured_eq demo_init_def)
  have u: "username demo_stored = ''alice''" and c: "classification demo_stored = ''unclassified''"
    by (simp_all add: demo_stored_def)
  have v: "verifyPassword e ''secretpw'' (passwordHash demo_stored) (salt demo_stored) = Inr True"
    by (simp add: demo_verify assms)
  have g: "generateSessionId e = generateSessionId demo_env"
    by (simp add: generateSessionId_def assms)
  have s: "demo_session = \<lparr> sessionId = generateSessionId e, session_username = ''alice'',
                session_classification = classification demo_stored,
                accessToken = Some (apiToken1 e), refreshToken = Some (apiToken2 e),
                expiresAt = clock1 e + eightHours,
                permissions = getPermissionsForClassification (classification demo_stored) \<rparr>"
    by (simp add: demo_session_def g c assms)
  show ?thesis
    using authenticateUser_verified [OF assms(7) cf u v assms(8) s]
    by (simp add: g ss cf assms)
qed

lemma demo_loggedin_eq:
  "demo_loggedin = demo_configured\<lparr>sessions := [generateSessionId demo_env \<mapsto> demo_session],
              currentSession := Some demo_session,
              credentialsFile := FileWith (demo_stored\<lparr>lastUsed := Some 1001\<rparr>)\<rparr>"
  unfolding demo_loggedin_def
  by (subst demo_authenticate) (simp_all add: demo_env_fields)

lemma demo_session_fields:
  "sessionId demo_session = generateSessionId demo_env"
  "expiresAt demo_session = 28801000"
  "accessToken demo_session = Some ''access-token''"
  "permissions demo_session =
     [''catalog:read'', ''objects:search'', ''objects:get'', ''tle:read'', ''predictions:read'']"
  by (simp_all add: demo_session_def eightHours_def getPermissionsForClassification_def
      basePermissions_def)

lemma demo_sessionId_nonempty: "generateSessionId demo_env \<noteq> []"
proof -
  have "length (generateSessionId demo_env) = 64"
    by (simp add: generateSessionId_def length_toString_hex demo_env_fields)
  then show ?thesis by auto
qed

lemma demo_loggedin_fields:
  "currentSession demo_loggedin = Some demo_session"
  "sessions demo_loggedin = [generateSessionId demo_env \<mapsto> demo_session]"
  "console demo_loggedin = []"
  by (simp_all add: demo_loggedin_eq demo_configured_eq demo_init_def)

section \<open>The claims\<close>

subsection \<open>C1: the permission catalog\<close>

text \<open>
  C1, as stated, at an unrecognised classification: the claim gives such a string the set
  of \<open>unclassified\<close>, which contains \<open>predictions:read\<close>. The \<open>default\<close> branch returns
  \<open>basePermissions\<close>, which does not: for \<open>top-secret\<close> the result differs from the
  five-element set.
\<close>

theorem C1_unknown_counterexample:
  "set (getPermissionsForClassification ''top-secret'') \<noteq>
     {''catalog:read'', ''objects:search'', ''objects:get'', ''tle:read'', ''predictions:read''}"
proof
  assume eq: "set (getPermissionsForClassification ''top-secret'') =
     {''catalog:read'', ''objects:search'', ''objects:get'', ''tle:read'', ''predictions:read''}"
  have "''predictions:read'' \<notin> set (getPermissionsForClassification ''top-secret'')"
    by (simp add: getPermissionsForClassification_def basePermissions_def)
  with eq show False by simp
qed

text \<open>
  C1, amended: \<open>unclassified\<close> yields the five capabilities of the table, \<open>cui\<close> adds
  three to them, \<open>secret\<close> adds three more, and every other classification string yields
  the four base capabilities \<open>catalog:read\<close>, \<open>objects:search\<close>, \<open>objects:get\<close>,
  \<open>tle:read\<close> (the set of \<open>unclassified\<close> without \<open>predictions:read\<close>).
\<close>

theorem C1_permission_catalog:
  "set (getPermissionsForClassification ''unclassified'') =
     {''catalog:read'', ''objects:search'', ''objects:get'', ''tle:read'', ''predictions:read''}
   \<and> set (getPermissionsForClassification ''cui'') =
     set (getPermissionsForClassification ''unclassified'') \<union>
       {''conjunctions:read'', ''sensors:read'', ''analysis:read''}
   \<and> set (getPermissionsForClassification ''secret'') =
     set (getPermissionsForClassification ''cui'') \<union>
       {''classifications:all'', ''spacefence:read'', ''intelligence:read''}
   \<and> (c \<noteq> ''unclassified'' \<and> c \<noteq> ''cui'' \<and> c \<noteq> ''secret'' \<longrightarrow>
        getPermissionsForClassification c =
          [''catalog:read'', ''objects:search'', ''objects:get'', ''tle:read''])"
  by (auto simp: getPermissionsForClassification_def basePermissions_def)

theorem C1_permission_catalog_witness:
  "''top-secret'' \<noteq> ''unclassified'' \<and> ''top-secret'' \<noteq> ''cui'' \<and> ''top-secret'' \<noteq> ''secret''
   \<and> getPermissionsForClassification ''top-secret'' =
        [''catalog:read'', ''objects:search'', ''objects:get'', ''tle:read'']
   \<and> ''predictions:read'' \<notin> set (getPermissionsForClassification ''top-secret'')"
  using C1_permission_catalog [of "''top-secret''"] by simp

subsection \<open>C2: the outcomes of authenticateUser\<close>

text \<open>
  C2: when the credential file can be read, \<open>authenticateUser\<close> fails with
  \<open>NoCredentialsConfigured\<close> if no record is stored, with \<open>InvalidUsername\<close> if the stored
  username differs from the argument, and with \<open>InvalidPassword\<close> if the username matches
  and \<open>verifyPassword\<close> returns false, each time leaving the state as it was. When the
  username matches and \<open>verifyPassword\<close> returns true (and the identity-provider call and
  the rewrite of the file go through), it returns a session whose \<open>expiresAt\<close> is the clock
  reading plus eight hours, the stored record has its \<open>lastUsed\<close> set, and the session
  is in the table and current.
\<close>

theorem C2_authenticateUser_outcomes:
  assumes "\<not> readFails e"
  shows "(credentialsFile st = NoFile \<longrightarrow>
            authenticateUser e u p st = (Inl NoCredentialsConfigured, st))
    \<and> (\<forall>c. credentialsFile st = FileWith c \<and> username c \<noteq> u \<longrightarrow>
            authenticateUser e u p st = (Inl InvalidUsername, st))
    \<and> (\<forall>c. credentialsFile st = FileWith c \<and> username c = u \<and>
            verifyPassword e p (passwordHash c) (salt c) = Inr False \<longrightarrow>
            authenticateUser e u p st = (Inl InvalidPassword, st))
    \<and> (\<forall>c. credentialsFile st = FileWith c \<and> username c = u \<and>
            verifyPassword e p (passwordHash c) (salt c) = Inr True \<and>
            \<not> udlFails e \<and> \<not> writeFails e \<longrightarrow>
            (\<exists>s st'. authenticateUser e u p st = (Inr s, st') \<and>
               expiresAt s = clock1 e + 8 * 60 * 60 * 1000 \<and>
               session_username s = u \<and>
               session_classification s = classification c \<and>
               permissions s = getPermissionsForClassification (classification c) \<and>
               credentialsFile st' = FileWith (c\<lparr>lastUsed := Some (clock2 e)\<rparr>) \<and>
               currentSession st' = Some s \<and>
               sessions st' = (sessions st)(sessionId s \<mapsto> s)))"
proof (intro conjI allI impI)
  assume "credentialsFile st = NoFile"
  then show "authenticateUser e u p st = (Inl NoCredentialsConfigured, st)"
    using assms by (simp add: authenticateUser_def loadCredentials_def)
next
  fix c assume "credentialsFile st = FileWith c \<and> username c \<noteq> u"
  then show "authenticateUser e u p st = (Inl InvalidUsername, st)"
    using assms by (simp add: authenticateUser_def loadCredentials_def)
next
  fix c assume "credentialsFile st = FileWith c \<and> username c = u \<and>
            verifyPassword e p (passwordHash c) (salt c) = Inr False"
  then show "authenticateUser e u p st = (Inl InvalidPassword, st)"
    using assms by (simp add: authenticateUser_def loadCredentials_def)
next
  fix c assume h: "credentialsFile st = FileWith c \<and> username c = u \<and>
            verifyPassword e p (passwordHash c) (salt c) = Inr True \<and>
            \<not> udlFails e \<and> \<not> writeFails e"
  define s where "s = \<lparr> sessionId = generateSessionId e, session_username = u,
                session_classification = classification c,
                accessToken = Some (apiToken1 e), refreshToken = Some (apiToken2 e),
                expiresAt = clock1 e + eightHours,
                permissions = getPermissionsForClassification (classification c) \<rparr>"
  from h have h1: "credentialsFile st = FileWith c" and h2: "username c = u"
    and h3: "verifyPassword e p (passwordHash c) (salt c) = Inr True"
    and h4: "\<not> udlFails e" and h5: "\<not> writeFails e"
    by simp_all
  have "authenticateUser e u p st = (Inr s,
            st\<lparr>sessions := (sessions st)(generateSessionId e \<mapsto> s), currentSession := Some s,
               credentialsFile := FileWith (c\<lparr>lastUsed := Some (clock2 e)\<rparr>)\<rparr>)"
    using authenticateUser_verified [OF assms h1 h2 h3 h4 s_def] h5 by simp
  moreover have "sessionId s = generateSessionId e" "expiresAt s = clock1 e + 8 * 60 * 60 * 1000"
    "session_username s = u" "session_classification s = classification c"
    "permissions s = getPermissionsForClassification (classification c)"
    by (simp_all add: s_def eightHours_def)
  ultimately show "\<exists>s st'. authenticateUser e u p st = (Inr s, st') \<and>
               expiresAt s = clock1 e + 8 * 60 * 60 * 1000 \<and>
               session_username s = u \<and>
               session_classification s = classification c \<and>
               permissions s = getPermissionsForClassification (classification c) \<and>
               credentialsFile st' = FileWith (c\<lparr>lastUsed := Some (clock2 e)\<rparr>) \<and>
               currentSession st' = Some s \<and>
               sessions st' = (sessions st)(sessionId s \<mapsto> s)"
    by simp
qed

theorem C2_authenticateUser_outcomes_witness:
  "authenticateUser demo_env ''alice'' ''secretpw'' demo_init = (Inl NoCredentialsConfigured, demo_init)
   \<and> authenticateUser demo_env ''bob'' ''secretpw'' demo_configured = (Inl InvalidUsername, demo_configured)
   \<and> authenticateUser demo_env ''alice'' ''wrongpw'' demo_configured = (Inl InvalidPassword, demo_configured)
   \<and> (\<exists>s st'. authenticateUser demo_env ''alice'' ''secretpw'' demo_configured = (Inr s, st') \<and>
         expiresAt s = 1000 + 8 * 60 * 60 * 1000 \<and>
         permissions s = [''catalog:read'', ''objects:search'', ''objects:get'', ''tle:read'',
           ''predictions:read''] \<and>
         credentialsFile st' = FileWith (demo_stored\<lparr>lastUsed := Some 1001\<rparr>))"
proof -
  have r: "\<not> readFails demo_env" by (simp add: demo_env_fields)
  have none: "credentialsFile demo_init = NoFile" by (simp add: demo_init_def)
  have cf: "credentialsFile demo_configured = FileWith demo_stored"
    by (simp add: demo_configured_eq demo_init_def)
  have u: "username demo_stored = ''alice''" "classification demo_stored = ''unclassified''"
    by (simp_all add: demo_stored_def)
  have bad: "verifyPassword demo_env ''wrongpw'' (passwordHash demo_stored) (salt demo_stored) = Inr False"
    by (simp add: demo_verify demo_env_fields) (simp add: demo_scrypt_def)
  have good: "verifyPassword demo_env ''secretpw'' (passwordHash demo_stored) (salt demo_stored) = Inr True"
    by (simp add: demo_verify demo_env_fields)
  have perms: "getPermissionsForClassification ''unclassified'' =
     [''catalog:read'', ''objects:search'', ''objects:get'', ''tle:read'', ''predictions:read'']"
    by (simp add: getPermissionsForClassification_def basePermissions_def)
  from C2_authenticateUser_outcomes [OF r, of demo_init "''alice''" "''secretpw''"]
       C2_authenticateUser_outcomes [OF r, of demo_configured "''bob''" "''secretpw''"]
       C2_authenticateUser_outcomes [OF r, of demo_configured "''alice''" "''wrongpw''"]
       C2_authenticateUser_outcomes [OF r, of demo_configured "''alice''" "''secretpw''"]
       none cf u bad good
  show ?thesis by (auto simp: demo_env_fields perms)
qed

subsection \<open>C3: what a failed authenticateUser leaves behind\<close>

text \<open>
  C3, as stated, when the rewrite of the credential file fails: the session was stored in
  the table and made current before \<open>fs.writeFile\<close> is awaited, so the call throws and
  the table and the pointer have both changed.
\<close>

theorem C3_write_failure_counterexample:
  "fst (authenticateUser (demo_env\<lparr>writeFails := True\<rparr>) ''alice'' ''secretpw'' demo_configured)
     = Inl WriteFileRejected
   \<and> currentSession (snd (authenticateUser (demo_env\<lparr>writeFails := True\<rparr>) ''alice'' ''secretpw''
        demo_configured)) \<noteq> currentSession demo_configured
   \<and> sessions (snd (authenticateUser (demo_env\<lparr>writeFails := True\<rparr>) ''alice'' ''secretpw''
        demo_configured)) \<noteq> sessions demo_configured"
proof -
  have a: "authenticateUser (demo_env\<lparr>writeFails := True\<rparr>) ''alice'' ''secretpw'' demo_configured =
      (Inl WriteFileRejected,
       demo_configured\<lparr>sessions := [generateSessionId demo_env \<mapsto> demo_session],
         currentSession := Some demo_session,
         credentialsFile :=
           failedWrite (demo_env\<lparr>writeFails := True\<rparr>) (FileWith demo_stored)
             (demo_stored\<lparr>lastUsed := Some 1001\<rparr>)\<rparr>)"
    by (subst demo_authenticate) (simp_all add: demo_env_fields)
  have c: "currentSession demo_configured = None" and s: "sessions demo_configured = Map.empty"
    by (simp_all add: demo_configured_eq demo_init_def)
  have "[generateSessionId demo_env \<mapsto> demo_session] \<noteq> Map.empty"
    by simp
  then show ?thesis by (simp add: a c s)
qed

text \<open>
  C3, amended: when \<open>authenticateUser\<close> fails at any step up to and including the
  identity-provider call, neither the session table nor the current-session pointer is
  changed by the call (nothing is). When the rewrite of the credential file fails, the call
  fails, and the newly issued session is already in the session table and is the current
  session.
\<close>

theorem C3_authenticateUser_failure_states:
  "(\<forall>err. fst (authenticateUser e u p st) = Inl err \<and> err \<noteq> WriteFileRejected \<longrightarrow>
        snd (authenticateUser e u p st) = st)
   \<and> (\<forall>c. \<not> readFails e \<and> credentialsFile st = FileWith c \<and> username c = u \<and>
        verifyPassword e p (passwordHash c) (salt c) = Inr True \<and> udlFails e \<longrightarrow>
        authenticateUser e u p st = (Inl IdentityProviderError, st))
   \<and> (\<forall>c. \<not> readFails e \<and> credentialsFile st = FileWith c \<and> username c = u \<and>
        verifyPassword e p (passwordHash c) (salt c) = Inr True \<and> \<not> udlFails e \<and>
        writeFails e \<longrightarrow>
        (\<exists>s. fst (authenticateUser e u p st) = Inl WriteFileRejected \<and>
              sessions (snd (authenticateUser e u p st)) = (sessions st)(sessionId s \<mapsto> s) \<and>
              currentSession (snd (authenticateUser e u p st)) = Some s \<and>
              sessionId s = generateSessionId e \<and> session_username s = u \<and>
              expiresAt s = clock1 e + 8 * 60 * 60 * 1000))"
proof (intro conjI allI impI)
  fix err assume "fst (authenticateUser e u p st) = Inl err \<and> err \<noteq> WriteFileRejected"
  then show "snd (authenticateUser e u p st) = st"
    by (auto simp: authenticateUser_def Let_def
        split: sum.splits option.splits if_splits prod.splits)
next
  fix c assume "\<not> readFails e \<and> credentialsFile st = FileWith c \<and> username c = u \<and>
        verifyPassword e p (passwordHash c) (salt c) = Inr True \<and> udlFails e"
  then show "authenticateUser e u p st = (Inl IdentityProviderError, st)"
    by (simp add: authenticateUser_def loadCredentials_def authenticateWithUDL_def)
next
  fix c assume h: "\<not> readFails e \<and> credentialsFile st = FileWith c \<and> username c = u \<and>
        verifyPassword e p (passwordHash c) (salt c) = Inr True \<and> \<not> udlFails e \<and>
        writeFails e"
  define s where "s = \<lparr> sessionId = generateSessionId e, session_username = u,
                session_classification = classification c,
                accessToken = Some (apiToken1 e), refreshToken = Some (apiToken2 e),
                expiresAt = clock1 e + eightHours,
                permissions = getPermissionsForClassification (classification c) \<rparr>"
  from h have h0: "\<not> readFails e" and h1: "credentialsFile st = FileWith c" and h2: "username c = u"
    and h3: "verifyPassword e p (passwordHash c) (salt c) = Inr True"
    and h4: "\<not> udlFails e" and h5: "writeFails e"
    by simp_all
  have id: "sessionId s = generateSessionId e" by (simp add: s_def)
  have a: "authenticateUser e u p st = (Inl WriteFileRejected,
            st\<lparr>sessions := (sessions st)(sessionId s \<mapsto> s), currentSession := Some s,
               credentialsFile :=
                 failedWrite e (credentialsFile st) (c\<lparr>lastUsed := Some (clock2 e)\<rparr>)\<rparr>)"
    using authenticateUser_verified [OF h0 h1 h2 h3 h4 s_def] h5 by (simp add: id)
  have "fst (authenticateUser e u p st) = Inl WriteFileRejected"
    and "sessions (snd (authenticateUser e u p st)) = (sessions st)(sessionId s \<mapsto> s)"
    and "currentSession (snd (authenticateUser e u p st)) = Some s"
    by (simp_all add: a)
  moreover have "session_username s = u" "expiresAt s = clock1 e + 8 * 60 * 60 * 1000"
    by (simp_all add: s_def eightHours_def)
  ultimately show "\<exists>s. fst (authenticateUser e u p st) = Inl WriteFileRejected \<and>
              sessions (snd (authenticateUser e u p st)) = (sessions st)(sessionId s \<mapsto> s) \<and>
              currentSession (snd (authenticateUser e u p st)) = Some s \<and>
              sessionId s = generateSessionId e \<and> session_username s = u \<and>
              expiresAt s = clock1 e + 8 * 60 * 60 * 1000"
    using id by blast
qed

theorem C3_authenticateUser_failure_states_witness:
  "authenticateUser (demo_env\<lparr>udlFails := True\<rparr>) ''alice'' ''secretpw'' demo_configured =
      (Inl IdentityProviderError, demo_configured)
   \<and> (\<exists>s. fst (authenticateUser (demo_env\<lparr>writeFails := True\<rparr>) ''alice'' ''secretpw''
              demo_configured) = Inl WriteFileRejected \<and>
          sessions (snd (authenticateUser (demo_env\<lparr>writeFails := True\<rparr>) ''alice'' ''secretpw''
              demo_configured)) = (sessions demo_configured)(sessionId s \<mapsto> s) \<and>
          currentSession (snd (authenticateUser (demo_env\<lparr>writeFails := True\<rparr>) ''alice''
              ''secretpw'' demo_configured)) = Some s)
   \<and> snd (authenticateUser demo_env ''bob'' ''secretpw'' demo_configured) = demo_configured"
proof -
  have cf: "credentialsFile demo_configured = FileWith demo_stored"
    by (simp add: demo_configured_eq demo_init_def)
  have u: "username demo_stored = ''alice''"
    by (simp add: demo_stored_def)
  have good: "verifyPassword (demo_env\<lparr>udlFails := True\<rparr>) ''secretpw'' (passwordHash demo_stored)
       (salt demo_stored) = Inr True"
    "verifyPassword (demo_env\<lparr>writeFails := True\<rparr>) ''secretpw'' (passwordHash demo_stored)
       (salt demo_stored) = Inr True"
    by (simp_all add: demo_verify demo_env_fields)
  have bob: "fst (authenticateUser demo_env ''bob'' ''secretpw'' demo_configured) = Inl InvalidUsername"
    by (simp add: authenticateUser_def loadCredentials_def demo_env_fields cf u)
  from C3_authenticateUser_failure_states [of "demo_env\<lparr>udlFails := True\<rparr>" "''alice''" "''secretpw''" demo_configured]
       C3_authenticateUser_failure_states [of "demo_env\<lparr>writeFails := True\<rparr>" "''alice''" "''secretpw''" demo_configured]
       C3_authenticateUser_failure_states [of demo_env "''bob''" "''secretpw''" demo_configured]
       cf u good bob
  show ?thesis by (auto simp: demo_env_fields)
qed

subsection \<open>C4: an expired session is absent\<close>

text \<open>
  C4: the current session \<open>s\<close> is returned by \<open>getCurrentSession\<close> exactly when the
  clock is not past \<open>expiresAt s\<close>. When the clock is past it, \<open>getCurrentSession\<close>
  returns none, clears the pointer and (the identifier being a non-empty string, as every
  generated one is) removes the entry under \<open>sessionId s\<close>, logging the revocation;
  \<open>getAuthenticationStatus\<close> returns the unauthenticated status, \<open>validatePermission\<close>
  returns false and \<open>getApiHeaders\<close> fails with \<open>NotAuthenticated\<close>, and each of the
  three leaves the state that \<open>getCurrentSession\<close> leaves, with the session purged.
  \<open>refreshSession\<close> on the key of an expired entry fails with \<open>SessionExpired\<close> and
  removes that entry.
\<close>

theorem C4_expired_session_is_absent:
  "(currentSession st = Some s \<longrightarrow>
      (fst (getCurrentSession e st) = Some s) = (\<not> clock1 e > expiresAt s))
   \<and> (currentSession st = Some s \<and> clock1 e > expiresAt s \<longrightarrow>
        fst (getCurrentSession e st) = None
      \<and> currentSession (snd (getCurrentSession e st)) = None
      \<and> (sessionId s \<noteq> [] \<longrightarrow> sessions (snd (getCurrentSession e st)) (sessionId s) = None)
      \<and> (sessionId s \<noteq> [] \<and> sessions st (sessionId s) = Some s \<longrightarrow>
            snd (getCurrentSession e st) =
              st\<lparr>console := console st @ [''Revoking tokens for session '' @ sessionId s],
                 sessions := (sessions st)(sessionId s := None),
                 currentSession := None\<rparr>)
      \<and> getAuthenticationStatus e st = (unauthenticated, snd (getCurrentSession e st))
      \<and> \<not> isAuthenticated (fst (getAuthenticationStatus e st))
      \<and> validatePermission e p st = (False, snd (getCurrentSession e st))
      \<and> getApiHeaders e st = (Inl NotAuthenticated, snd (getCurrentSession e st)))
   \<and> (sessions st sid = Some s \<and> clock1 e > expiresAt s \<longrightarrow>
        refreshSession e sid st =
          (Inl SessionExpired, st\<lparr>sessions := (sessions st)(sid := None)\<rparr>))"
proof (intro conjI impI)
  assume "currentSession st = Some s"
  then show "(fst (getCurrentSession e st) = Some s) = (\<not> clock1 e > expiresAt s)"
    by (simp add: getCurrentSession_cases)
next
  assume h: "currentSession st = Some s \<and> clock1 e > expiresAt s"
  then have g: "getCurrentSession e st = (None, logout (Some (sessionId s)) st)"
    by (simp add: getCurrentSession_cases)
  from h have cur: "currentSession st = Some s" by simp
  show "fst (getCurrentSession e st) = None" by (simp add: g)
  show "currentSession (snd (getCurrentSession e st)) = None"
    by (simp add: g logout_expired_current(1) [OF cur])
  show "getAuthenticationStatus e st = (unauthenticated, snd (getCurrentSession e st))"
    by (simp add: getAuthenticationStatus_def g)
  show "\<not> isAuthenticated (fst (getAuthenticationStatus e st))"
    by (simp add: getAuthenticationStatus_def g unauthenticated_def)
  show "validatePermission e p st = (False, snd (getCurrentSession e st))"
    by (simp add: validatePermission_def g)
  show "getApiHeaders e st = (Inl NotAuthenticated, snd (getCurrentSession e st))"
    by (simp add: getApiHeaders_def g)
  {
    assume "sessionId s \<noteq> []"
    then show "sessions (snd (getCurrentSession e st)) (sessionId s) = None"
      by (simp add: g logout_expired_current(2) [OF cur])
  }
  {
    assume "sessionId s \<noteq> [] \<and> sessions st (sessionId s) = Some s"
    then show "snd (getCurrentSession e st) =
              st\<lparr>console := console st @ [''Revoking tokens for session '' @ sessionId s],
                 sessions := (sessions st)(sessionId s := None),
                 currentSession := None\<rparr>"
      by (simp add: g logout_expired_current(3) [OF cur])
  }
next
  assume "sessions st sid = Some s \<and> clock1 e > expiresAt s"
  then show "refreshSession e sid st =
          (Inl SessionExpired, st\<lparr>sessions := (sessions st)(sid := None)\<rparr>)"
    by (simp add: refreshSession_def)
qed

theorem C4_expired_session_is_absent_witness:
  "fst (getCurrentSession (demo_env\<lparr>clock1 := 28801000\<rparr>) demo_loggedin) = Some demo_session
   \<and> fst (getCurrentSession (demo_env\<lparr>clock1 := 28801001\<rparr>) demo_loggedin) = None
   \<and> snd (getCurrentSession (demo_env\<lparr>clock1 := 28801001\<rparr>) demo_loggedin) =
        demo_loggedin\<lparr>console := [''Revoking tokens for session '' @ generateSessionId demo_env],
          sessions := Map.empty, currentSession := None\<rparr>
   \<and> \<not> isAuthenticated (fst (getAuthenticationStatus (demo_env\<lparr>clock1 := 28801001\<rparr>) demo_loggedin))
   \<and> validatePermission (demo_env\<lparr>clock1 := 28801001\<rparr>) ''objects:get'' demo_loggedin =
        (False,
         demo_loggedin\<lparr>console := [''Revoking tokens for session '' @ generateSessionId demo_env],
           sessions := Map.empty, currentSession := None\<rparr>)
   \<and> getApiHeaders (demo_env\<lparr>clock1 := 28801001\<rparr>) demo_loggedin =
        (Inl NotAuthenticated,
         demo_loggedin\<lparr>console := [''Revoking tokens for session '' @ generateSessionId demo_env],
           sessions := Map.empty, currentSession := None\<rparr>)
   \<and> refreshSession (demo_env\<lparr>clock1 := 28801001\<rparr>) (generateSessionId demo_env) demo_loggedin =
        (Inl SessionExpired, demo_loggedin\<lparr>sessions := Map.empty\<rparr>)"
proof -
  have t: "sessions demo_loggedin (generateSessionId demo_env) = Some demo_session"
    by (simp add: demo_loggedin_fields)
  have m: "(sessions demo_loggedin)(generateSessionId demo_env := None) = Map.empty"
    by (simp add: demo_loggedin_fields)
  from C4_expired_session_is_absent [of demo_loggedin demo_session "demo_env\<lparr>clock1 := 28801000\<rparr>"]
       C4_expired_session_is_absent [of demo_loggedin demo_session "demo_env\<lparr>clock1 := 28801001\<rparr>"
         "''objects:get''" "generateSessionId demo_env"]
       t m demo_sessionId_nonempty
  show ?thesis
    by (simp add: demo_loggedin_fields(1,3) demo_session_fields(1,2) unauthenticated_def)
qed

subsection \<open>C5: validatePermission\<close>

text \<open>
  C5: \<open>validatePermission p\<close> is true exactly when there is a current session that is
  not expired and whose permissions contain \<open>p\<close>, or \<open>*\<close>, or the text of \<open>p\<close> before its
  first colon followed by \<open>:*\<close>; it is false when there is no current session or the
  current session is expired. For a permission \<open>ns:action\<close> whose namespace \<open>ns\<close> has no
  colon, that prefix is \<open>ns\<close>.
\<close>

theorem C5_validatePermission:
  "fst (validatePermission e p st) =
     (\<exists>s. currentSession st = Some s \<and> \<not> clock1 e > expiresAt s \<and>
        (p \<in> set (permissions s) \<or> ''*'' \<in> set (permissions s) \<or>
         (split_colon_0 p @ '':*'') \<in> set (permissions s)))
   \<and> (currentSession st = None \<or> (\<exists>s. currentSession st = Some s \<and> clock1 e > expiresAt s)
        \<longrightarrow> \<not> fst (validatePermission e p st))
   \<and> (CHR '':'' \<notin> set ns \<longrightarrow> split_colon_0 (ns @ '':'' @ action) = ns \<and> split_colon_0 ns = ns)"
proof -
  have "split_colon_0 (ns @ '':'' @ action) = ns \<and> split_colon_0 ns = ns"
    if "CHR '':'' \<notin> set ns"
    using that by (simp add: split_colon_0_def takeWhile_append)
  then show ?thesis
    by (auto simp: validatePermission_def getCurrentSession_cases split: option.splits)
qed

theorem C5_validatePermission_witness:
  "fst (validatePermission demo_env ''objects:get'' demo_loggedin)
   \<and> \<not> fst (validatePermission demo_env ''spacefence:read'' demo_loggedin)
   \<and> fst (validatePermission demo_env ''objects:get''
        (demo_loggedin\<lparr>currentSession := Some (demo_session\<lparr>permissions := [''objects:*'']\<rparr>)\<rparr>))
   \<and> \<not> fst (validatePermission demo_env ''objects:get'' demo_configured)
   \<and> \<not> fst (validatePermission (demo_env\<lparr>clock1 := 28801001\<rparr>) ''objects:get'' demo_loggedin)
   \<and> split_colon_0 ''objects:get'' = ''objects''"
proof -
  have none: "currentSession demo_configured = None"
    by (simp add: demo_configured_eq demo_init_def)
  have ns: "CHR '':'' \<notin> set ''objects''" by simp
  from C5_validatePermission [of demo_env "''objects:get''" demo_loggedin "''objects''" "''get''"]
       C5_validatePermission [of demo_env "''spacefence:read''" demo_loggedin]
       C5_validatePermission [of demo_env "''objects:get''"
         "demo_loggedin\<lparr>currentSession := Some (demo_session\<lparr>permissions := [''objects:*'']\<rparr>)\<rparr>"
         "''objects''" "''get''"]
       C5_validatePermission [of demo_env "''objects:get''" demo_configured]
       C5_validatePermission [of "demo_env\<lparr>clock1 := 28801001\<rparr>" "''objects:get''" demo_loggedin]
       none ns
  show ?thesis
    by (simp add: demo_loggedin_fields(1) demo_session_fields demo_env_fields split_colon_0_def)
qed

subsection \<open>C6: what a refresh changes\<close>

text \<open>
  C6: refreshing a session that is in the table and not expired succeeds, and the session
  returned and stored is the old one with only \<open>accessToken\<close> replaced and \<open>expiresAt\<close> set
  to the clock reading plus eight hours: \<open>sessionId\<close>, \<open>refreshToken\<close>, \<open>username\<close>,
  \<open>classification\<close> and \<open>permissions\<close> are those of the old session.
\<close>

theorem C6_refreshSession_frame:
  assumes "sessions st sid = Some s" and "\<not> clock1 e > expiresAt s"
  shows "\<exists>r st'. refreshSession e sid st = (Inr r, st')
     \<and> r = s\<lparr>accessToken := Some (apiToken1 e), expiresAt := clock2 e + 8 * 60 * 60 * 1000\<rparr>
     \<and> sessionId r = sessionId s
     \<and> refreshToken r = refreshToken s
     \<and> session_username r = session_username s
     \<and> session_classification r = session_classification s
     \<and> permissions r = permissions s
     \<and> expiresAt r = clock2 e + 8 * 60 * 60 * 1000
     \<and> sessions st' = (sessions st)(sid \<mapsto> r)
     \<and> credentialsFile st' = credentialsFile st
     \<and> console st' = console st
     \<and> currentSession st' =
          (if map_option sessionId (currentSession st) = Some sid then Some r
           else currentSession st)"
  using assms by (auto simp: refreshSession_def Let_def eightHours_def)

theorem C6_refreshSession_frame_witness:
  "\<exists>r st'. refreshSession demo_env (generateSessionId demo_env) demo_loggedin = (Inr r, st')
     \<and> r = demo_session\<lparr>accessToken := Some ''access-token'', expiresAt := 1001 + 8 * 60 * 60 * 1000\<rparr>
     \<and> sessionId r = sessionId demo_session
     \<and> refreshToken r = Some ''refresh-token''
     \<and> permissions r = permissions demo_session"
proof -
  have t: "sessions demo_loggedin (generateSessionId demo_env) = Some demo_session"
    by (simp add: demo_loggedin_eq)
  have live: "\<not> clock1 demo_env > expiresAt demo_session"
    by (simp add: demo_env_fields demo_session_def eightHours_def)
  from C6_refreshSession_frame [OF t live] show ?thesis
    by (auto simp: demo_env_fields demo_session_def)
qed

subsection \<open>C7: a password verifies against its own hash\<close>

text \<open>
  C7: for every password \<open>P\<close> and every salt (given or drawn), verifying \<open>P\<close> against the
  hash and salt that hashing \<open>P\<close> produced returns true. For two distinct passwords,
  verifying one against the hash of the other returns true exactly when \<open>scrypt\<close> maps
  both to the same key under that salt, and false otherwise; how rarely \<open>scrypt\<close>
  collides is a property of the key-derivation function, which is a parameter here. The
  hypothesis is that \<open>scrypt\<close> returns the 64 bytes it is asked for, and that both calls
  use the same function.
\<close>

theorem C7_hash_then_verify:
  assumes kdf: "\<forall>p s. length (scrypt e p s 64) = 64"
    and same: "scrypt e' = scrypt e"
  shows "verifyPassword e' P (fst (hashPassword e P so)) (snd (hashPassword e P so)) = Inr True
    \<and> (\<forall>P1 P2. P1 \<noteq> P2 \<longrightarrow>
          verifyPassword e' P1 (fst (hashPassword e P2 so)) (snd (hashPassword e P2 so)) =
            Inr (scrypt e P1 (Buffer_from_hex (snd (hashPassword e P2 so))) 64 =
                 scrypt e P2 (Buffer_from_hex (snd (hashPassword e P2 so))) 64))"
proof -
  define sb where "sb = (case so of Some s \<Rightarrow> s | None \<Rightarrow> randomBytes32 e)"
  have salt: "Buffer_from_hex (snd (hashPassword e Q so)) = sb" for Q
    by (simp add: hashPassword_def Let_def sb_def Buffer_from_hex_toString_hex)
  have len: "length (scrypt e Q sb 64) = length (scrypt e Q' sb 64)" for Q Q'
    using kdf by simp
  have v: "verifyPassword e' A (fst (hashPassword e B so)) (snd (hashPassword e B so)) =
            Inr (scrypt e B sb 64 = scrypt e A sb 64)" for A B
    by (rule verifyPassword_hashPassword [OF len same sb_def])
  have "verifyPassword e' P (fst (hashPassword e P so)) (snd (hashPassword e P so)) = Inr True"
    by (simp add: v)
  moreover have "verifyPassword e' P1 (fst (hashPassword e P2 so)) (snd (hashPassword e P2 so)) =
            Inr (scrypt e P1 sb 64 = scrypt e P2 sb 64)" for P1 P2
    by (simp add: v eq_commute)
  ultimately show ?thesis by (simp add: salt)
qed

theorem C7_hash_then_verify_witness:
  "verifyPassword demo_env ''secretpw'' (fst (hashPassword demo_env ''secretpw'' None))
      (snd (hashPassword demo_env ''secretpw'' None)) = Inr True
   \<and> verifyPassword demo_env ''wrongpw'' (fst (hashPassword demo_env ''secretpw'' None))
      (snd (hashPassword demo_env ''secretpw'' None)) = Inr False"
proof -
  have kdf: "\<forall>p s. length (scrypt demo_env p s 64) = 64"
    by (simp add: demo_env_fields(1) length_demo_scrypt)
  have ne: "''wrongpw'' \<noteq> ''secretpw''" by simp
  have salt: "Buffer_from_hex (snd (hashPassword demo_env ''secretpw'' None)) = replicate 32 7"
    by (simp add: hashPassword_def Let_def Buffer_from_hex_toString_hex demo_env_def)
  have diff: "demo_scrypt ''wrongpw'' (replicate 32 7) 64 \<noteq> demo_scrypt ''secretpw'' (replicate 32 7) 64"
    by (simp add: demo_scrypt_def)
  from C7_hash_then_verify [OF kdf refl, of "''secretpw''" None] ne salt diff
  show ?thesis by (simp add: demo_env_fields(1))
qed

subsection \<open>C8: verification throws only on malformed stored data\<close>

text \<open>
  C8: when the stored hash is the hexadecimal encoding of 64 bytes, \<open>verifyPassword\<close>
  returns a boolean for every password and every stored salt; whenever it throws, the
  error is the \<open>RangeError\<close> of the comparison and the stored hash is not such an
  encoding (it decodes to a buffer that is not 64 bytes long).
\<close>

theorem C8_verifyPassword_throws_only_malformed:
  assumes kdf: "\<forall>p s. length (scrypt e p s 64) = 64"
  shows "(valid_hex 64 h \<longrightarrow> (\<exists>b. verifyPassword e p h s = Inr b))
       \<and> (\<forall>err. verifyPassword e p h s = Inl err \<longrightarrow>
             err = RangeError \<and> length (Buffer_from_hex h) \<noteq> 64 \<and> \<not> valid_hex 64 h)"
proof -
  have "\<exists>b. verifyPassword e p h s = Inr b" if "valid_hex 64 h"
    using kdf length_Buffer_from_hex [OF that]
    by (simp add: verifyPassword_def Let_def timingSafeEqual_def)
  moreover have "err = RangeError \<and> length (Buffer_from_hex h) \<noteq> 64 \<and> \<not> valid_hex 64 h"
    if "verifyPassword e p h s = Inl err" for err
  proof -
    from that kdf have "err = RangeError" "length (Buffer_from_hex h) \<noteq> 64"
      by (auto simp: verifyPassword_def Let_def timingSafeEqual_def split: if_splits)
    then show ?thesis using length_Buffer_from_hex [of 64 h] by auto
  qed
  ultimately show ?thesis by blast
qed

theorem C8_verifyPassword_throws_only_malformed_witness:
  "valid_hex 64 (replicate 128 CHR ''0'')
   \<and> (\<exists>b. verifyPassword demo_env ''secretpw'' (replicate 128 CHR ''0'') ''zz'' = Inr b)
   \<and> verifyPassword demo_env ''secretpw'' ''abcd'' ''00'' = Inl RangeError
   \<and> \<not> valid_hex 64 ''abcd''"
proof -
  have kdf: "\<forall>p s. length (scrypt demo_env p s 64) = 64"
    by (simp add: demo_env_fields(1) length_demo_scrypt)
  have v: "valid_hex 64 (replicate 128 CHR ''0'')"
    by (simp add: valid_hex_def list_all_iff unhex_def)
  have t: "verifyPassword demo_env ''secretpw'' ''abcd'' ''00'' = Inl RangeError"
    by (simp add: verifyPassword_def Let_def timingSafeEqual_def demo_env_fields(1)
        length_demo_scrypt unhex_def)
  from C8_verifyPassword_throws_only_malformed [OF kdf, of "replicate 128 CHR ''0''" "''secretpw''" "''zz''"]
    C8_verifyPassword_throws_only_malformed [OF kdf, of "''abcd''" "''secretpw''" "''00''"] v t
  show ?thesis by simp
qed

subsection \<open>C9: the current session and the table\<close>

text \<open>
  C9, evaluated after \<open>alice\<close> has logged in and her session has expired: the pointer
  refers to the entry of the table before the call; \<open>refreshSession\<close> on the session's
  identifier fails with \<open>SessionExpired\<close> and deletes the entry, and the pointer still
  holds the session, which the table no longer has. (The lemmas of the subsection on the
  current session show that the other operations, and \<open>refreshSession\<close> in every other
  case, keep the pointer in the table.)
\<close>

theorem C9_refresh_expired_leaves_dangling_current:
  "current_in_table demo_loggedin
   \<and> fst (refreshSession (demo_env\<lparr>clock1 := 28801001\<rparr>) (generateSessionId demo_env)
        demo_loggedin) = Inl SessionExpired
   \<and> currentSession (snd (refreshSession (demo_env\<lparr>clock1 := 28801001\<rparr>)
        (generateSessionId demo_env) demo_loggedin)) = Some demo_session
   \<and> sessions (snd (refreshSession (demo_env\<lparr>clock1 := 28801001\<rparr>)
        (generateSessionId demo_env) demo_loggedin)) (sessionId demo_session) = None
   \<and> \<not> current_in_table (snd (refreshSession (demo_env\<lparr>clock1 := 28801001\<rparr>)
        (generateSessionId demo_env) demo_loggedin))"
proof -
  have r: "refreshSession (demo_env\<lparr>clock1 := 28801001\<rparr>) (generateSessionId demo_env)
        demo_loggedin = (Inl SessionExpired, demo_loggedin\<lparr>sessions := Map.empty\<rparr>)"
    by (simp add: refreshSession_def demo_loggedin_fields(2) demo_session_fields(2))
  have a: "current_in_table demo_loggedin"
    by (simp add: current_in_table_def demo_loggedin_fields(1,2) demo_session_fields(1))
  have b: "\<not> current_in_table (demo_loggedin\<lparr>sessions := Map.empty\<rparr>)"
    by (simp add: current_in_table_def demo_loggedin_fields(1))
  show ?thesis
    by (simp add: r a b demo_loggedin_fields(1))
qed

subsection \<open>C10: clearing the stored credentials\<close>

text \<open>
  C10: \<open>clearStoredCredentials\<close> leaves the session table and the current-session
  pointer as they were and, when the deletion succeeds, leaves no credential record.
  \<open>getAuthenticationStatus\<close>, \<open>validatePermission\<close> and \<open>getApiHeaders\<close> answer after it as
  they would have before it; so with a current session that is not expired the status is
  authenticated, a permission the session holds is validated, and the headers are returned
  when the session has an access token.
\<close>

theorem C10_clearStoredCredentials_frame:
  "sessions (snd (clearStoredCredentials e st)) = sessions st
   \<and> currentSession (snd (clearStoredCredentials e st)) = currentSession st
   \<and> (\<not> unlinkFails e \<longrightarrow> credentialsFile (snd (clearStoredCredentials e st)) = NoFile)
   \<and> fst (getAuthenticationStatus e' (snd (clearStoredCredentials e st))) =
       fst (getAuthenticationStatus e' st)
   \<and> fst (validatePermission e' p (snd (clearStoredCredentials e st))) =
       fst (validatePermission e' p st)
   \<and> fst (getApiHeaders e' (snd (clearStoredCredentials e st))) = fst (getApiHeaders e' st)
   \<and> (\<forall>s. currentSession st = Some s \<and> \<not> clock1 e' > expiresAt s \<longrightarrow>
         isAuthenticated (fst (getAuthenticationStatus e' (snd (clearStoredCredentials e st))))
       \<and> (p \<in> set (permissions s) \<longrightarrow>
            fst (validatePermission e' p (snd (clearStoredCredentials e st))))
       \<and> (\<forall>token. accessToken s = Some token \<and> token \<noteq> [] \<longrightarrow>
            (\<exists>headers. fst (getApiHeaders e' (snd (clearStoredCredentials e st))) = Inr headers)))"
proof -
  have frame: "sessions (snd (clearStoredCredentials e st)) = sessions st"
    "currentSession (snd (clearStoredCredentials e st)) = currentSession st"
    "\<not> unlinkFails e \<longrightarrow> credentialsFile (snd (clearStoredCredentials e st)) = NoFile"
    by (simp_all add: clearStoredCredentials_def)
  have same: "fst (getAuthenticationStatus e' (snd (clearStoredCredentials e st))) =
       fst (getAuthenticationStatus e' st)"
    "fst (validatePermission e' p (snd (clearStoredCredentials e st))) =
       fst (validatePermission e' p st)"
    "fst (getApiHeaders e' (snd (clearStoredCredentials e st))) = fst (getApiHeaders e' st)"
    using clearStoredCredentials_cases [of e st]
    by (auto simp: reads_ignore_credentialsFile)
  have live: "isAuthenticated (fst (getAuthenticationStatus e' st))
       \<and> (p \<in> set (permissions s) \<longrightarrow> fst (validatePermission e' p st))
       \<and> (\<forall>token. accessToken s = Some token \<and> token \<noteq> [] \<longrightarrow>
            (\<exists>headers. fst (getApiHeaders e' st) = Inr headers))"
    if "currentSession st = Some s \<and> \<not> clock1 e' > expiresAt s" for s
    using that
    by (simp add: getAuthenticationStatus_def validatePermission_def getApiHeaders_def
        getCurrentSession_cases)
  show ?thesis
    unfolding same using frame live by blast
qed

theorem C10_clearStoredCredentials_frame_witness:
  "credentialsFile (snd (clearStoredCredentials demo_env demo_loggedin)) = NoFile
   \<and> currentSession (snd (clearStoredCredentials demo_env demo_loggedin)) = Some demo_session
   \<and> isAuthenticated (fst (getAuthenticationStatus demo_env
        (snd (clearStoredCredentials demo_env demo_loggedin))))
   \<and> fst (validatePermission demo_env ''objects:get''
        (snd (clearStoredCredentials demo_env demo_loggedin)))
   \<and> (\<exists>headers. fst (getApiHeaders demo_env
        (snd (clearStoredCredentials demo_env demo_loggedin))) = Inr headers)"
proof -
  have live: "\<not> clock1 demo_env > expiresAt demo_session"
    by (simp add: demo_env_fields demo_session_fields)
  have tok: "''access-token'' \<noteq> []" by simp
  have p: "''objects:get'' \<in> set (permissions demo_session)"
    by (simp add: demo_session_fields)
  have cur: "currentSession demo_loggedin = Some demo_session \<and>
             \<not> clock1 demo_env > expiresAt demo_session"
    using live by (simp add: demo_loggedin_fields(1))
  have at: "accessToken demo_session = Some ''access-token'' \<and> ''access-token'' \<noteq> []"
    by (simp add: demo_session_fields(3))
  have u: "\<not> unlinkFails demo_env" by (simp add: demo_env_fields)
  note th = C10_clearStoredCredentials_frame [of demo_env demo_loggedin demo_env "''objects:get''"]
  from th u have "credentialsFile (snd (clearStoredCredentials demo_env demo_loggedin)) = NoFile"
    by blast
  moreover from th have "currentSession (snd (clearStoredCredentials demo_env demo_loggedin)) =
      Some demo_session"
    by (simp add: demo_loggedin_fields(1))
  moreover from th cur have "isAuthenticated (fst (getAuthenticationStatus demo_env
        (snd (clearStoredCredentials demo_env demo_loggedin))))"
    by blast
  moreover from th cur p have "fst (validatePermission demo_env ''objects:get''
        (snd (clearStoredCredentials demo_env demo_loggedin)))"
    by blast
  moreover from th cur at have "\<exists>headers. fst (getApiHeaders demo_env
        (snd (clearStoredCredentials demo_env demo_loggedin))) = Inr headers"
    by blast
  ultimately show ?thesis by blast
qed

end
